theory Spec2Isabelle
  imports Main
begin

section \<open>The collaborators from net/http and encoding/json\<close>

text \<open>
  The package is thin plumbing over Go's \<^verbatim>\<open>net/http\<close> and \<^verbatim>\<open>encoding/json\<close>.  Neither library
  is part of the package.  An \<^verbatim>\<open>http.ResponseWriter\<close> is an interface, so the model is a
  recording writer: it keeps, in order, every operation performed on it.  The field
  \<open>werr\<close> is the error (if any) that each \<^verbatim>\<open>Write\<close> on this writer returns, e.g. for a
  connection that has gone away.  A Go \<^verbatim>\<open>error\<close> is modelled by its message.
\<close>

type_synonym err = string

datatype wcall =
    HeaderSet string string
  | HeaderDel string
  | WriteHeader int
  | Write string

record ResponseWriter =
  calls :: "wcall list"
  werr :: "err option"

text \<open>\<^verbatim>\<open>w.Header().Set(k, v)\<close>\<close>

definition Header_Set :: "ResponseWriter \<Rightarrow> string \<Rightarrow> string \<Rightarrow> ResponseWriter" where
  "Header_Set w k v = w\<lparr>calls := calls w @ [HeaderSet k v]\<rparr>"

text \<open>\<^verbatim>\<open>w.Header().Del(k)\<close>\<close>

definition Header_Del :: "ResponseWriter \<Rightarrow> string \<Rightarrow> ResponseWriter" where
  "Header_Del w k = w\<lparr>calls := calls w @ [HeaderDel k]\<rparr>"

text \<open>
  A panic: a method call on a nil interface, or the panic of \<^verbatim>\<open>WriteHeader\<close> on a status
  code that it refuses.
\<close>

datatype fault = NilDereference | InvalidWriteHeaderCode int

text \<open>
  \<^verbatim>\<open>w.WriteHeader(code)\<close>; it has no result.  The writers of \<^verbatim>\<open>net/http\<close> panic when the code is
  below 100 or above 999.
\<close>

definition Write_Header :: "ResponseWriter \<Rightarrow> int \<Rightarrow> fault + ResponseWriter" where
  "Write_Header w code =
     (if code < 100 \<or> code > 999 then Inl (InvalidWriteHeaderCode code)
      else Inr (w\<lparr>calls := calls w @ [WriteHeader code]\<rparr>))"

text \<open>\<^verbatim>\<open>w.Write(b)\<close> returns the number of bytes written and an error.\<close>

definition Write_Bytes :: "ResponseWriter \<Rightarrow> string \<Rightarrow> ResponseWriter \<times> nat \<times> err option" where
  "Write_Bytes w b =
     (w\<lparr>calls := calls w @ [Write b]\<rparr>,
      (case werr w of None \<Rightarrow> length b | Some _ \<Rightarrow> 0),
      werr w)"

text \<open>
  \<^verbatim>\<open>http.Error(w, msg, code)\<close> of the standard library: it deletes \<^verbatim>\<open>Content-Length\<close>, sets the
  plain-text content type and \<^verbatim>\<open>nosniff\<close>, writes the status line and prints the message
  followed by a newline, ignoring the outcome of that last write.
\<close>

definition http_Error :: "ResponseWriter \<Rightarrow> string \<Rightarrow> int \<Rightarrow> fault + ResponseWriter" where
  "http_Error w msg code =
     (let w1 = Header_Del w ''Content-Length'';
          w2 = Header_Set w1 ''Content-Type'' ''text/plain; charset=utf-8'';
          w3 = Header_Set w2 ''X-Content-Type-Options'' ''nosniff''
      in case Write_Header w3 code of
           Inl f \<Rightarrow> Inl f
         | Inr w4 \<Rightarrow> Inr (fst (Write_Bytes w4 (msg @ [CHR 0x0A]))))"

definition StatusOK :: int where "StatusOK = 200"
definition StatusNotFound :: int where "StatusNotFound = 404"
definition StatusMethodNotAllowed :: int where "StatusMethodNotAllowed = 405"

text \<open>
  An \<^verbatim>\<open>*http.Request\<close>: the method, the header map and the body stream (of a type \<open>'b\<close> that
  the JSON decoder reads).  \<^verbatim>\<open>Header.Get\<close> gives the first value stored under a key, or
  the empty string.
\<close>

record 'b Request =
  Method :: string
  Header :: "string \<rightharpoonup> string list"
  Body :: 'b


section \<open>JSONResponse and JSONRequest\<close>

text \<open>
  \<^verbatim>\<open>json.Marshal\<close> is a parameter \<open>Marshal\<close>: it gives the encoded bytes or an error.
  \<^verbatim>\<open>JSONResponse\<close> returns the writer after the call and the error result (\<open>None\<close> is \<^verbatim>\<open>nil\<close>),
  or it panics where \<^verbatim>\<open>WriteHeader\<close> does: the code is passed on as the caller gave it.
\<close>

definition JSONResponse ::
  "('v \<Rightarrow> err + string) \<Rightarrow> ResponseWriter \<Rightarrow> int \<Rightarrow> 'v \<Rightarrow>
     fault + ResponseWriter \<times> err option" where
  "JSONResponse Marshal w code val =
     (case Marshal val of
        Inl e \<Rightarrow> Inr (w, Some e)
      | Inr v \<Rightarrow>
          (let w1 = Header_Set w ''Content-Type'' ''application/json'' in
           case Write_Header w1 code of
             Inl f \<Rightarrow> Inl f
           | Inr w2 \<Rightarrow> (let (w3, _) = Write_Bytes w2 v in Inr (w3, None))))"

text \<open>
  \<^verbatim>\<open>json.NewDecoder(req.Body).Decode(v)\<close> is a parameter \<open>Decode\<close>: from the body stream and
  the target it gives the error result, the target as the decoder left it and the rest
  of the stream.  The request and its body are those of a server request, which are not
  nil.
\<close>

definition JSONRequest ::
  "('b \<Rightarrow> 'v \<Rightarrow> err option \<times> 'v \<times> 'b) \<Rightarrow> 'b Request \<Rightarrow> 'v \<Rightarrow> err option \<times> 'v \<times> 'b" where
  "JSONRequest Decode req v = Decode (Body req) v"

section \<open>Resource\<close>

text \<open>
  An \<^verbatim>\<open>http.Handler\<close> is an interface value: \<open>None\<close> is the nil interface, \<open>Some f\<close> a handler
  whose \<^verbatim>\<open>ServeHTTP\<close> has the effect \<open>f req\<close> on the writer.
\<close>

type_synonym 'b Handler = "('b Request \<Rightarrow> ResponseWriter \<Rightarrow> ResponseWriter) option"

record 'b methodHandler =
  "method" :: string
  handler :: "'b Handler"

record 'b Resource =
  allow :: string
  methods :: "'b methodHandler list"

text \<open>The zero value \<^verbatim>\<open>Resource{}\<close>.\<close>

definition Resource_zero :: "'b Resource" where
  "Resource_zero = \<lparr>allow = [], methods = []\<rparr>"

text \<open>
  The loop of \<^verbatim>\<open>Handle\<close>: the index of the first binding whose method is the one given, if
  there is one.  \<^verbatim>\<open>Handle\<close> reads \<^verbatim>\<open>r.methods\<close> at once, so its receiver is a resource that
  exists; only \<^verbatim>\<open>ServeHTTP\<close> checks for a nil receiver.
\<close>

fun Handle_scan :: "'b methodHandler list \<Rightarrow> string \<Rightarrow> nat option" where
  "Handle_scan [] meth = None"
| "Handle_scan (m # ms) meth =
     (if method m = meth then Some 0 else map_option Suc (Handle_scan ms meth))"

definition Handle :: "'b Resource \<Rightarrow> string \<Rightarrow> 'b Handler \<Rightarrow> 'b Resource" where
  "Handle r meth hdl =
     (let h = \<lparr>method = meth, handler = hdl\<rparr> in
      case Handle_scan (methods r) meth of
        Some i \<Rightarrow> r\<lparr>methods := (methods r)[i := h]\<rparr>
      | None \<Rightarrow>
          (let r1 = r\<lparr>methods := methods r @ [h]\<rparr>;
               meth1 = (if allow r1 \<noteq> [] then '', '' @ meth else meth)
           in r1\<lparr>allow := allow r1 @ meth1\<rparr>))"

text \<open>A sequence of \<^verbatim>\<open>Handle\<close> calls on one resource, first call first.\<close>

fun Handle_all :: "'b Resource \<Rightarrow> (string \<times> 'b Handler) list \<Rightarrow> 'b Resource" where
  "Handle_all r [] = r"
| "Handle_all r ((meth, hdl) # bs) = Handle_all (Handle r meth hdl) bs"

text \<open>\<^verbatim>\<open>m.handler.ServeHTTP(w, req)\<close>: a method call on a nil interface panics.\<close>

definition Handler_ServeHTTP ::
  "'b Handler \<Rightarrow> ResponseWriter \<Rightarrow> 'b Request \<Rightarrow> fault + ResponseWriter" where
  "Handler_ServeHTTP hdl w req =
     (case hdl of None \<Rightarrow> Inl NilDereference | Some f \<Rightarrow> Inr (f req w))"

definition serveOptions ::
  "'b Resource \<Rightarrow> ResponseWriter \<Rightarrow> 'b Request \<Rightarrow> fault + ResponseWriter" where
  "serveOptions r w req = Write_Header (Header_Set w ''Allow'' (allow r)) StatusOK"

text \<open>The match loop of \<^verbatim>\<open>ServeHTTP\<close> and what follows it when nothing matches.\<close>

fun ServeHTTP_loop ::
  "'b Resource \<Rightarrow> 'b methodHandler list \<Rightarrow> ResponseWriter \<Rightarrow> 'b Request \<Rightarrow> fault + ResponseWriter" where
  "ServeHTTP_loop r [] w req =
     http_Error (Header_Set w ''Allow'' (allow r)) ''Not allowed'' StatusMethodNotAllowed"
| "ServeHTTP_loop r (m # ms) w req =
     (if Method req = method m then Handler_ServeHTTP (handler m) w req
      else ServeHTTP_loop r ms w req)"

text \<open>The receiver is a pointer: \<open>None\<close> is the nil \<^verbatim>\<open>*Resource\<close>.\<close>

definition ServeHTTP ::
  "'b Resource option \<Rightarrow> ResponseWriter \<Rightarrow> 'b Request \<Rightarrow> fault + ResponseWriter" where
  "ServeHTTP ro w req =
     (case ro of
        None \<Rightarrow> http_Error w ''Not found'' StatusNotFound
      | Some r \<Rightarrow>
          if length (methods r) = 0 then http_Error w ''Not found'' StatusNotFound
          else if Method req = ''OPTIONS'' then serveOptions r w req
          else ServeHTTP_loop r (methods r) w req)"



section \<open>The call graph of the package\<close>




section \<open>The specification's words\<close>

text \<open>The methods of a sequence of bindings, each once, in the order they are first seen.\<close>

fun first_seen :: "string list \<Rightarrow> string list \<Rightarrow> string list" where
  "first_seen acc [] = acc"
| "first_seen acc (x # xs) = first_seen (if x \<in> set acc then acc else acc @ [x]) xs"

text \<open>Joining with a comma and a space.\<close>

fun comma_join :: "string list \<Rightarrow> string" where
  "comma_join [] = []"
| "comma_join [x] = x"
| "comma_join (x # y # ys) = x @ '', '' @ comma_join (y # ys)"

text \<open>
  What \<^verbatim>\<open>Handle\<close> keeps true of a resource: \<open>allow\<close> is the joined list of the bound
  methods, and the first bound method is not the empty string.
\<close>

definition allow_inv :: "'b Resource \<Rightarrow> bool" where
  "allow_inv r \<longleftrightarrow> allow r = comma_join (map method (methods r)) \<and>
     (map method (methods r) \<noteq> [] \<longrightarrow> hd (map method (methods r)) \<noteq> [])"

section \<open>Facts about the writer and the joined list\<close>

lemma http_Error_accepted:
  "100 \<le> code \<Longrightarrow> code \<le> 999 \<Longrightarrow>
   http_Error w msg code = Inr (w\<lparr>calls := calls w @
     [HeaderDel ''Content-Length'', HeaderSet ''Content-Type'' ''text/plain; charset=utf-8'',
      HeaderSet ''X-Content-Type-Options'' ''nosniff'', WriteHeader code,
      Write (msg @ [CHR 0x0A])]\<rparr>)"
  by (simp add: http_Error_def Header_Del_def Header_Set_def Write_Header_def Write_Bytes_def)

lemma comma_join_snoc:
  "comma_join (xs @ [x]) = (if xs = [] then x else comma_join xs @ '', '' @ x)"
  by (induction xs rule: comma_join.induct) auto

lemma comma_join_nonempty: "xs \<noteq> [] \<Longrightarrow> hd xs \<noteq> [] \<Longrightarrow> comma_join xs \<noteq> []"
  by (induction xs rule: comma_join.induct) auto

lemma first_seen_distinct:
  "distinct acc \<Longrightarrow>
   distinct (first_seen acc xs) \<and> set (first_seen acc xs) = set acc \<union> set xs"
  by (induction xs arbitrary: acc) auto

section \<open>Facts about Handle\<close>

lemma Handle_scan_None: "Handle_scan ms meth = None \<longleftrightarrow> meth \<notin> set (map method ms)"
  by (induction ms) auto

lemma Handle_scan_Some:
  "Handle_scan ms meth = Some i \<Longrightarrow> i < length ms \<and> method (ms ! i) = meth"
  by (induction ms arbitrary: i) (auto split: if_splits)

lemma Handle_scan_first:
  "Handle_scan ms meth = Some i \<Longrightarrow> j < i \<Longrightarrow> method (ms ! j) \<noteq> meth"
proof (induction ms arbitrary: i j)
  case Nil
  then show ?case by simp
next
  case (Cons m ms)
  then show ?case by (cases j) (auto split: if_splits)
qed

lemma Handle_scan_found:
  assumes "meth \<in> set (map method ms)"
  obtains i where "Handle_scan ms meth = Some i"
  using assms Handle_scan_None [of ms meth] by (cases "Handle_scan ms meth") auto

lemma map_method_update:
  "i < length ms \<Longrightarrow> method (ms ! i) = meth \<Longrightarrow>
   map method (ms[i := \<lparr>method = meth, handler = hdl\<rparr>]) = map method ms"
  by (simp add: map_update list_update_same_conv)

lemma Handle_rebind:
  assumes "meth \<in> set (map method (methods r))"
  shows "allow (Handle r meth hdl) = allow r"
    and "map method (methods (Handle r meth hdl)) = map method (methods r)"
proof -
  from assms obtain i where i: "Handle_scan (methods r) meth = Some i"
    by (rule Handle_scan_found)
  show "allow (Handle r meth hdl) = allow r" using i by (simp add: Handle_def)
  show "map method (methods (Handle r meth hdl)) = map method (methods r)"
    using i Handle_scan_Some [OF i] by (simp add: Handle_def map_method_update)
qed

lemma Handle_rebind_at:
  assumes "meth \<in> set (map method (methods r))"
  shows "\<exists>i<length (methods r). method (methods r ! i) = meth \<and>
           (\<forall>j<i. method (methods r ! j) \<noteq> meth) \<and>
           methods (Handle r meth hdl) = (methods r)[i := \<lparr>method = meth, handler = hdl\<rparr>]"
proof -
  from assms obtain i where i: "Handle_scan (methods r) meth = Some i"
    by (rule Handle_scan_found)
  then show ?thesis using Handle_scan_Some [OF i] Handle_scan_first [OF i]
    by (auto simp: Handle_def)
qed

lemma Handle_new:
  assumes "meth \<notin> set (map method (methods r))"
  shows "allow (Handle r meth hdl) = allow r @ (if allow r \<noteq> [] then '', '' @ meth else meth)"
    and "methods (Handle r meth hdl) = methods r @ [\<lparr>method = meth, handler = hdl\<rparr>]"
  using assms Handle_scan_None [of "methods r" meth] by (simp_all add: Handle_def Let_def)

lemma Handle_methods_step:
  "map method (methods (Handle r meth hdl)) =
     (if meth \<in> set (map method (methods r)) then map method (methods r)
      else map method (methods r) @ [meth])"
  using Handle_rebind(2) [of meth r hdl] Handle_new(2) [of meth r hdl] by auto

lemma Handle_nonempty: "methods (Handle r meth hdl) \<noteq> []"
proof
  assume "methods (Handle r meth hdl) = []"
  then have "map method (methods (Handle r meth hdl)) = []" by simp
  then show False using Handle_methods_step [of r meth hdl]
    by (cases "meth \<in> set (map method (methods r))") auto
qed

lemma Handle_inv:
  assumes "allow_inv r" "methods r \<noteq> [] \<or> meth \<noteq> []"
  shows "allow_inv (Handle r meth hdl)"
proof (cases "meth \<in> set (map method (methods r))")
  case True
  show ?thesis
    using assms(1) Handle_rebind [OF True, of hdl] by (simp add: allow_inv_def)
next
  case False
  show ?thesis
  proof (cases "methods r = []")
    case True
    then show ?thesis using assms Handle_new [OF False, of hdl] by (simp add: allow_inv_def)
  next
    case ne: False
    then have "allow r \<noteq> []"
      using assms(1) comma_join_nonempty [of "map method (methods r)"]
      by (simp add: allow_inv_def)
    then show ?thesis using assms(1) ne Handle_new [OF False, of hdl]
      by (simp add: allow_inv_def comma_join_snoc)
  qed
qed

lemma Handle_all_methods:
  "map method (methods (Handle_all r bs)) = first_seen (map method (methods r)) (map fst bs)"
proof (induction bs arbitrary: r)
  case Nil
  then show ?case by simp
next
  case (Cons b bs)
  obtain meth hdl where b: "b = (meth, hdl)" by (cases b)
  show ?case using Cons.IH [of "Handle r meth hdl"] Handle_methods_step [of r meth hdl]
    by (simp add: b)
qed

lemma Handle_all_inv:
  "allow_inv r \<Longrightarrow> methods r \<noteq> [] \<or> bs = [] \<or> fst (hd bs) \<noteq> [] \<Longrightarrow>
   allow_inv (Handle_all r bs)"
proof (induction bs arbitrary: r)
  case Nil
  then show ?case by simp
next
  case (Cons b bs)
  obtain meth hdl where b: "b = (meth, hdl)" by (cases b)
  have "allow_inv (Handle r meth hdl)" using Cons.prems by (auto simp: b intro: Handle_inv)
  then show ?case using Cons.IH [of "Handle r meth hdl"] Handle_nonempty [of r meth hdl]
    by (simp add: b)
qed

lemma Handle_all_zero_allow:
  assumes "bs = [] \<or> fst (hd bs) \<noteq> []"
  shows "allow (Handle_all Resource_zero bs) = comma_join (first_seen [] (map fst bs))"
proof -
  have "allow_inv (Resource_zero :: 'a Resource)" by (simp add: allow_inv_def Resource_zero_def)
  then have "allow_inv (Handle_all (Resource_zero :: 'a Resource) bs)"
    using assms by (intro Handle_all_inv) auto
  then show ?thesis
    using Handle_all_methods [of "Resource_zero :: 'a Resource" bs]
    by (simp add: allow_inv_def Resource_zero_def)
qed

section \<open>Facts about ServeHTTP and serveCORS\<close>

lemma ServeHTTP_loop_first:
  "i < length ms \<Longrightarrow> method (ms ! i) = Method req \<Longrightarrow>
   (\<forall>j<i. method (ms ! j) \<noteq> Method req) \<Longrightarrow>
   ServeHTTP_loop r ms w req = Handler_ServeHTTP (handler (ms ! i)) w req"
proof (induction ms arbitrary: i)
  case Nil
  then show ?case by simp
next
  case (Cons m ms)
  show ?case
  proof (cases i)
    case 0
    then show ?thesis using Cons.prems by simp
  next
    case (Suc k)
    have "method m \<noteq> Method req" using Cons.prems(3) Suc by auto
    moreover have "ServeHTTP_loop r ms w req = Handler_ServeHTTP (handler (ms ! k)) w req"
      using Cons.prems Suc by (intro Cons.IH) auto
    ultimately show ?thesis using Suc by simp
  qed
qed


lemma ServeHTTP_match:
  assumes "Method req \<noteq> ''OPTIONS''" "i < length (methods r)"
    "method (methods r ! i) = Method req" "\<forall>j<i. method (methods r ! j) \<noteq> Method req"
  shows "ServeHTTP (Some r) w req = Handler_ServeHTTP (handler (methods r ! i)) w req"
proof -
  have "methods r \<noteq> []" using assms(2) by auto
  then show ?thesis using assms ServeHTTP_loop_first [of i "methods r" req r w]
    by (simp add: ServeHTTP_def)
qed





section \<open>The claims\<close>

text \<open>
  C1 (as amended).  For every sequence of \<^verbatim>\<open>Handle\<close> calls on a fresh resource whose first
  bound method is not the empty string, \<open>allow\<close> is the list of the distinct bound methods
  in first-seen order, joined with a comma and a space, and the bindings carry exactly
  those methods in that order.  On any resource, binding a new method appends it to
  \<open>allow\<close> (after a comma and a space when \<open>allow\<close> is not empty) and binding a method
  again leaves \<open>allow\<close> as it was.
\<close>

theorem Handle_allow_joined:
  assumes "bs = [] \<or> fst (hd bs) \<noteq> []"
  shows "allow (Handle_all Resource_zero bs) = comma_join (first_seen [] (map fst bs))
    \<and> map method (methods (Handle_all Resource_zero bs)) = first_seen [] (map fst bs)
    \<and> distinct (first_seen [] (map fst bs))
    \<and> set (first_seen [] (map fst bs)) = set (map fst bs)
    \<and> (meth \<notin> set (map method (methods r)) \<longrightarrow>
         allow (Handle r meth hdl) = allow r @ (if allow r \<noteq> [] then '', '' @ meth else meth))
    \<and> (meth \<in> set (map method (methods r)) \<longrightarrow> allow (Handle r meth hdl) = allow r)"
proof -
  have "map method (methods (Handle_all (Resource_zero :: 'a Resource) bs)) =
          first_seen [] (map fst bs)"
    using Handle_all_methods [of "Resource_zero :: 'a Resource" bs]
    by (simp add: Resource_zero_def)
  moreover have "distinct (first_seen [] (map fst bs)) \<and>
      set (first_seen [] (map fst bs)) = set (map fst bs)"
    using first_seen_distinct [of "[]" "map fst bs"] by simp
  ultimately show ?thesis
    using Handle_all_zero_allow [OF assms] Handle_new(1) [of meth r hdl]
      Handle_rebind(1) [of meth r hdl]
    by simp
qed

theorem Handle_allow_joined_witness:
  "([(''GET'', None), (''POST'', None), (''GET'', None)] = []
      \<or> fst (hd [(''GET'', None :: unit Handler), (''POST'', None), (''GET'', None)]) \<noteq> [])
   \<and> ''POST'' \<notin> set (map method (methods (Handle (Resource_zero :: unit Resource) ''GET'' None)))
   \<and> allow (Handle_all (Resource_zero :: unit Resource)
        [(''GET'', None), (''POST'', None), (''GET'', None)]) = ''GET, POST''
   \<and> allow (Handle (Handle (Resource_zero :: unit Resource) ''GET'' None) ''POST'' None)
        = ''GET, POST''"
  using Handle_allow_joined
    [of "[(''GET'', None :: unit Handler), (''POST'', None), (''GET'', None)]"
      "''POST''" "Handle (Resource_zero :: unit Resource) ''GET'' None" None]
  by (simp add: Handle_def Resource_zero_def)

theorem Handle_allow_joined_counterexample:
  "allow (Handle_all (Resource_zero :: unit Resource) [([], None), (''GET'', None)]) = ''GET''
   \<and> comma_join (first_seen [] (map fst [([], None :: unit Handler), (''GET'', None)])) = '', GET''
   \<and> allow (Handle_all (Resource_zero :: unit Resource) [([], None), (''GET'', None)])
       \<noteq> comma_join (first_seen [] (map fst [([], None :: unit Handler), (''GET'', None)]))"
  by (simp add: Handle_def Resource_zero_def)

text \<open>
  C2.  On a resource with at least one binding, a request whose method is \<^verbatim>\<open>OPTIONS\<close> gets
  the header \<^verbatim>\<open>Allow\<close> set to \<open>allow\<close> and then the status 200, and nothing else: no body is
  written and, whatever the bound handlers are (one for \<^verbatim>\<open>OPTIONS\<close> included), none of
  them acts on the writer.
\<close>

theorem ServeHTTP_OPTIONS:
  assumes "methods r \<noteq> []" "Method req = ''OPTIONS''"
  shows "ServeHTTP (Some r) w req =
           Inr (w\<lparr>calls := calls w @ [HeaderSet ''Allow'' (allow r), WriteHeader 200]\<rparr>)"
  using assms
  by (simp add: ServeHTTP_def serveOptions_def Header_Set_def Write_Header_def StatusOK_def)

theorem ServeHTTP_OPTIONS_witness:
  "methods (Handle (Resource_zero :: unit Resource) ''OPTIONS''
       (Some (\<lambda>req w. fst (Write_Bytes w ''handled'')))) \<noteq> []
   \<and> ServeHTTP (Some (Handle (Resource_zero :: unit Resource) ''OPTIONS''
         (Some (\<lambda>req w. fst (Write_Bytes w ''handled'')))))
       \<lparr>calls = [], werr = None\<rparr> \<lparr>Method = ''OPTIONS'', Header = Map.empty, Body = ()\<rparr>
     = Inr \<lparr>calls = [HeaderSet ''Allow'' ''OPTIONS'', WriteHeader 200], werr = None\<rparr>"
  using ServeHTTP_OPTIONS
    [of "Handle (Resource_zero :: unit Resource) ''OPTIONS''
           (Some (\<lambda>req w. fst (Write_Bytes w ''handled'')))"
      "\<lparr>Method = ''OPTIONS'', Header = Map.empty, Body = ()\<rparr>"
      "\<lparr>calls = [], werr = None\<rparr>"]
  by (simp add: Handle_def Resource_zero_def)

text \<open>
  C3.  On a nil resource, on the zero value and on any resource without bindings, every
  request (an \<^verbatim>\<open>OPTIONS\<close> request too) gets the status 404 and the body \<^verbatim>\<open>Not found\<close> followed
  by a newline; the call returns normally and no handler acts.
\<close>

theorem ServeHTTP_no_bindings:
  "ServeHTTP None w req = http_Error w ''Not found'' StatusNotFound
   \<and> ServeHTTP (Some Resource_zero) w req = http_Error w ''Not found'' StatusNotFound
   \<and> (methods r = [] \<longrightarrow>
        ServeHTTP (Some r) w req = http_Error w ''Not found'' StatusNotFound)
   \<and> http_Error w ''Not found'' StatusNotFound = Inr (w\<lparr>calls := calls w @
       [HeaderDel ''Content-Length'', HeaderSet ''Content-Type'' ''text/plain; charset=utf-8'',
        HeaderSet ''X-Content-Type-Options'' ''nosniff'', WriteHeader 404,
        Write (''Not found'' @ [CHR 0x0A])]\<rparr>)"
  by (simp add: ServeHTTP_def Resource_zero_def http_Error_accepted StatusNotFound_def)

theorem ServeHTTP_no_bindings_witness:
  "methods \<lparr>allow = ''GET'', methods = ([] :: unit methodHandler list)\<rparr> = []
   \<and> ServeHTTP (Some \<lparr>allow = ''GET'', methods = ([] :: unit methodHandler list)\<rparr>)
       \<lparr>calls = [], werr = None\<rparr> \<lparr>Method = ''OPTIONS'', Header = Map.empty, Body = ()\<rparr>
     = Inr \<lparr>calls =
         [HeaderDel ''Content-Length'', HeaderSet ''Content-Type'' ''text/plain; charset=utf-8'',
          HeaderSet ''X-Content-Type-Options'' ''nosniff'', WriteHeader 404,
          Write (''Not found'' @ [CHR 0x0A])], werr = None\<rparr>"
  using ServeHTTP_no_bindings
    [of "\<lparr>calls = [], werr = None\<rparr>" "\<lparr>Method = ''OPTIONS'', Header = Map.empty, Body = ()\<rparr>"
      "\<lparr>allow = ''GET'', methods = ([] :: unit methodHandler list)\<rparr>"]
  by simp

text \<open>
  C4 (as amended).  Binding a method that is already bound replaces the handler of its
  first binding in place: the methods of the bindings, their order and \<open>allow\<close> are
  unchanged, and a later request with that method, other than \<^verbatim>\<open>OPTIONS\<close>, is passed to the
  newly bound handler.  After binding \<^verbatim>\<open>GET\<close> to \<open>h1\<close>, \<^verbatim>\<open>POST\<close> to \<open>h2\<close> and \<^verbatim>\<open>GET\<close> to \<open>h3\<close>,
  \<open>allow\<close> is \<^verbatim>\<open>GET, POST\<close> and a \<^verbatim>\<open>GET\<close> request is passed to \<open>h3\<close>.
\<close>

theorem Handle_rebind_dispatch:
  assumes "meth \<in> set (map method (methods r))"
  shows "map method (methods (Handle r meth hdl)) = map method (methods r)
    \<and> allow (Handle r meth hdl) = allow r
    \<and> (\<exists>i<length (methods r). method (methods r ! i) = meth \<and>
           (\<forall>j<i. method (methods r ! j) \<noteq> meth) \<and>
           methods (Handle r meth hdl) = (methods r)[i := \<lparr>method = meth, handler = hdl\<rparr>])
    \<and> (Method req = meth \<and> meth \<noteq> ''OPTIONS'' \<longrightarrow>
           ServeHTTP (Some (Handle r meth hdl)) w req = Handler_ServeHTTP hdl w req)
    \<and> allow (Handle_all Resource_zero [(''GET'', h1), (''POST'', h2), (''GET'', h3)])
         = ''GET, POST''
    \<and> (Method req = ''GET'' \<longrightarrow>
           ServeHTTP (Some (Handle_all Resource_zero [(''GET'', h1), (''POST'', h2), (''GET'', h3)]))
             w req = Handler_ServeHTTP h3 w req)"
proof -
  obtain i where i: "i < length (methods r)" "method (methods r ! i) = meth"
      "\<forall>j<i. method (methods r ! j) \<noteq> meth"
      "methods (Handle r meth hdl) = (methods r)[i := \<lparr>method = meth, handler = hdl\<rparr>]"
    using Handle_rebind_at [OF assms, of hdl] by blast
  have disp: "ServeHTTP (Some (Handle r meth hdl)) w req = Handler_ServeHTTP hdl w req"
    if m: "Method req = meth" "meth \<noteq> ''OPTIONS''"
  proof -
    have "\<forall>j<i. method (methods (Handle r meth hdl) ! j) \<noteq> Method req"
      using i m by simp
    moreover have "method (methods (Handle r meth hdl) ! i) = Method req"
      using i m by simp
    moreover have "i < length (methods (Handle r meth hdl))" using i by simp
    ultimately have "ServeHTTP (Some (Handle r meth hdl)) w req =
        Handler_ServeHTTP (handler (methods (Handle r meth hdl) ! i)) w req"
      using m by (intro ServeHTTP_match) auto
    then show ?thesis using i by simp
  qed
  have scen: "allow (Handle_all (Resource_zero :: 'a Resource)
       [(''GET'', h1), (''POST'', h2), (''GET'', h3)]) = ''GET, POST''"
    by (simp add: Handle_def Resource_zero_def)
  have scen2: "ServeHTTP (Some (Handle_all Resource_zero
       [(''GET'', h1), (''POST'', h2), (''GET'', h3)])) w req = Handler_ServeHTTP h3 w req"
    if "Method req = ''GET''"
    using that by (simp add: Handle_def Resource_zero_def ServeHTTP_def)
  show ?thesis
    using Handle_rebind [OF assms, of hdl] Handle_rebind_at [OF assms, of hdl] disp scen scen2
    by simp
qed

theorem Handle_rebind_dispatch_witness:
  "''GET'' \<in> set (map method (methods (Handle_all (Resource_zero :: unit Resource)
       [(''GET'', Some (\<lambda>req w. fst (Write_Bytes w ''h1''))),
        (''POST'', Some (\<lambda>req w. fst (Write_Bytes w ''h2'')))])))
   \<and> ServeHTTP (Some (Handle (Handle_all (Resource_zero :: unit Resource)
       [(''GET'', Some (\<lambda>req w. fst (Write_Bytes w ''h1''))),
        (''POST'', Some (\<lambda>req w. fst (Write_Bytes w ''h2'')))])
       ''GET'' (Some (\<lambda>req w. fst (Write_Bytes w ''h3'')))))
      \<lparr>calls = [], werr = None\<rparr> \<lparr>Method = ''GET'', Header = Map.empty, Body = ()\<rparr>
     = Inr \<lparr>calls = [Write ''h3''], werr = None\<rparr>"
  using Handle_rebind_dispatch
    [of "''GET''" "Handle_all (Resource_zero :: unit Resource)
       [(''GET'', Some (\<lambda>req w. fst (Write_Bytes w ''h1''))),
        (''POST'', Some (\<lambda>req w. fst (Write_Bytes w ''h2'')))]"
      "Some (\<lambda>req w. fst (Write_Bytes w ''h3''))"
      "\<lparr>Method = ''GET'', Header = Map.empty, Body = ()\<rparr>" "\<lparr>calls = [], werr = None\<rparr>"]
  by (simp add: Handle_def Resource_zero_def Handler_ServeHTTP_def Write_Bytes_def)

theorem Handle_rebind_dispatch_counterexample:
  "ServeHTTP (Some (Handle (Handle (Resource_zero :: unit Resource)
       ''OPTIONS'' (Some (\<lambda>req w. fst (Write_Bytes w ''h1''))))
       ''OPTIONS'' (Some (\<lambda>req w. fst (Write_Bytes w ''h3'')))))
     \<lparr>calls = [], werr = None\<rparr> \<lparr>Method = ''OPTIONS'', Header = Map.empty, Body = ()\<rparr>
   \<noteq> Handler_ServeHTTP (Some (\<lambda>req w. fst (Write_Bytes w ''h3'')))
       \<lparr>calls = [], werr = None\<rparr> \<lparr>Method = ''OPTIONS'', Header = Map.empty, Body = ()\<rparr>"
  by (simp add: Handle_def Resource_zero_def ServeHTTP_def serveOptions_def Header_Set_def
      Write_Header_def StatusOK_def Handler_ServeHTTP_def Write_Bytes_def)



text \<open>
  C6.  When encoding the value fails, \<^verbatim>\<open>JSONResponse\<close> returns the encoder's error and the
  writer is exactly as it was: no header set, no status line, no body bytes.
\<close>

theorem JSONResponse_encode_failure:
  "Marshal val = Inl e \<Longrightarrow> JSONResponse Marshal w code val = Inr (w, Some e)"
  by (simp add: JSONResponse_def)

theorem JSONResponse_encode_failure_witness:
  "(case (None :: nat option) of None \<Rightarrow> Inl ''json: unsupported value'' | Some n \<Rightarrow> Inr ''0'')
     = Inl ''json: unsupported value''
   \<and> JSONResponse (\<lambda>x :: nat option.
         case x of None \<Rightarrow> Inl ''json: unsupported value'' | Some n \<Rightarrow> Inr ''0'')
       \<lparr>calls = [], werr = None\<rparr> 200 None
     = Inr (\<lparr>calls = [], werr = None\<rparr>, Some ''json: unsupported value'')"
  using JSONResponse_encode_failure
    [of "\<lambda>x :: nat option.
         case x of None \<Rightarrow> Inl ''json: unsupported value'' | Some n \<Rightarrow> Inr ''0''"
      None "''json: unsupported value''" "\<lparr>calls = [], werr = None\<rparr>" 200]
  by simp

text \<open>
  C7 (as amended).  When encoding the value succeeds and the status code is one that the
  writer accepts (from 100 to 999), \<^verbatim>\<open>JSONResponse\<close> sets the header \<^verbatim>\<open>Content-Type\<close> to
  \<^verbatim>\<open>application/json\<close>, then writes the status line with the caller's status code, then
  writes exactly the encoded bytes, and nothing else, and returns \<^verbatim>\<open>nil\<close>.
\<close>

theorem JSONResponse_success:
  "Marshal val = Inr v \<Longrightarrow> 100 \<le> code \<Longrightarrow> code \<le> 999 \<Longrightarrow>
   JSONResponse Marshal w code val =
     Inr (w\<lparr>calls := calls w @
            [HeaderSet ''Content-Type'' ''application/json'', WriteHeader code, Write v]\<rparr>,
          None)"
  by (simp add: JSONResponse_def Header_Set_def Write_Header_def Write_Bytes_def)

theorem JSONResponse_success_witness:
  "(case Some (0 :: nat) of None \<Rightarrow> Inl ''json: unsupported value'' | Some n \<Rightarrow> Inr ''0'')
     = Inr ''0''
   \<and> (100 :: int) \<le> 201 \<and> (201 :: int) \<le> 999
   \<and> JSONResponse (\<lambda>x :: nat option.
         case x of None \<Rightarrow> Inl ''json: unsupported value'' | Some n \<Rightarrow> Inr ''0'')
       \<lparr>calls = [], werr = None\<rparr> 201 (Some 0)
     = Inr (\<lparr>calls = [HeaderSet ''Content-Type'' ''application/json'', WriteHeader 201,
                      Write ''0''],
             werr = None\<rparr>, None)"
  using JSONResponse_success
    [of "\<lambda>x :: nat option.
         case x of None \<Rightarrow> Inl ''json: unsupported value'' | Some n \<Rightarrow> Inr ''0''"
      "Some 0" "''0''" 201 "\<lparr>calls = [], werr = None\<rparr>"]
  by simp

theorem JSONResponse_success_counterexample:
  "JSONResponse (\<lambda>x :: nat option.
         case x of None \<Rightarrow> Inl ''json: unsupported value'' | Some n \<Rightarrow> Inr ''0'')
       \<lparr>calls = [], werr = None\<rparr> 0 (Some 0)
     = Inl (InvalidWriteHeaderCode 0)
   \<and> JSONResponse (\<lambda>x :: nat option.
         case x of None \<Rightarrow> Inl ''json: unsupported value'' | Some n \<Rightarrow> Inr ''0'')
       \<lparr>calls = [], werr = None\<rparr> 0 (Some 0)
     \<noteq> Inr (\<lparr>calls = [HeaderSet ''Content-Type'' ''application/json'', WriteHeader 0,
                       Write ''0''],
              werr = None\<rparr>, None)"
  by (simp add: JSONResponse_def Header_Set_def Write_Header_def)

text \<open>
  C8.  \<^verbatim>\<open>JSONRequest\<close> hands the whole body stream of the request to the decoder and returns
  the decoder's result as it is: the same error, unwrapped, and \<^verbatim>\<open>nil\<close> exactly when the
  decoder returns \<^verbatim>\<open>nil\<close>.
\<close>

theorem JSONRequest_decode_result:
  "JSONRequest Decode req v = Decode (Body req) v
   \<and> (fst (JSONRequest Decode req v) = None) = (fst (Decode (Body req) v) = None)"
  by (simp add: JSONRequest_def)




text \<open>
  C10 (as amended).  When encoding the value succeeds and the status code is one that the
  writer accepts (from 100 to 999), \<^verbatim>\<open>JSONResponse\<close> returns \<^verbatim>\<open>nil\<close> whatever the writer does:
  its result is the writer as the write of the body left it, and the error that this
  write returned, the writer's \<open>werr\<close>, is dropped.  Writing the status line returns no
  error.
\<close>

theorem JSONResponse_drops_write_error:
  "Marshal val = Inr v \<Longrightarrow> 100 \<le> code \<Longrightarrow> code \<le> 999 \<Longrightarrow>
   Write_Header (Header_Set w ''Content-Type'' ''application/json'') code =
     Inr (w\<lparr>calls := calls w @
            [HeaderSet ''Content-Type'' ''application/json'', WriteHeader code]\<rparr>)
   \<and> JSONResponse Marshal w code val =
       Inr (fst (Write_Bytes (w\<lparr>calls := calls w @
              [HeaderSet ''Content-Type'' ''application/json'', WriteHeader code]\<rparr>) v),
            None)
   \<and> snd (snd (Write_Bytes (w\<lparr>calls := calls w @
              [HeaderSet ''Content-Type'' ''application/json'', WriteHeader code]\<rparr>) v))
       = werr w"
  by (simp add: JSONResponse_def Header_Set_def Write_Header_def Write_Bytes_def)

theorem JSONResponse_drops_write_error_witness:
  "(case Some (0 :: nat) of None \<Rightarrow> Inl ''json: unsupported value'' | Some n \<Rightarrow> Inr ''0'')
     = Inr ''0''
   \<and> (100 :: int) \<le> 200 \<and> (200 :: int) \<le> 999
   \<and> snd (snd (Write_Bytes \<lparr>calls = [HeaderSet ''Content-Type'' ''application/json'',
         WriteHeader 200], werr = Some ''broken pipe''\<rparr> ''0'')) = Some ''broken pipe''
   \<and> JSONResponse (\<lambda>x :: nat option.
         case x of None \<Rightarrow> Inl ''json: unsupported value'' | Some n \<Rightarrow> Inr ''0'')
       \<lparr>calls = [], werr = Some ''broken pipe''\<rparr> 200 (Some 0)
     = Inr (\<lparr>calls = [HeaderSet ''Content-Type'' ''application/json'', WriteHeader 200,
                      Write ''0''],
             werr = Some ''broken pipe''\<rparr>, None)"
  using JSONResponse_drops_write_error
    [of "\<lambda>x :: nat option.
         case x of None \<Rightarrow> Inl ''json: unsupported value'' | Some n \<Rightarrow> Inr ''0''"
      "Some 0" "''0''" 200 "\<lparr>calls = [], werr = Some ''broken pipe''\<rparr>"]
  by (simp add: Write_Bytes_def)

theorem JSONResponse_drops_write_error_counterexample:
  "JSONResponse (\<lambda>x :: nat option.
         case x of None \<Rightarrow> Inl ''json: unsupported value'' | Some n \<Rightarrow> Inr ''0'')
       \<lparr>calls = [], werr = Some ''broken pipe''\<rparr> 1000 (Some 0)
     = Inl (InvalidWriteHeaderCode 1000)"
  by (simp add: JSONResponse_def Header_Set_def Write_Header_def)

end
